theory Spec2Isabelle
  imports Complex_Main "HOL-Library.Multiset"
begin

section \<open>JavaScript numbers as the handlers use them\<close>

text \<open>
  A JavaScript number is an IEEE double. The handlers of \<^verbatim>\<open>server.js\<close> compare numbers,
  add \<^verbatim>\<open>offset + limit\<close>, divide \<^verbatim>\<open>total / limit\<close> and round up, so the model keeps the
  special values apart (\<open>NaN\<close>, the two infinities, the negative zero) and carries a finite
  value as the rational it denotes. \<open>Fin 0\<close> is the positive zero. Finite arithmetic is
  exact here, where a double rounds: the two agree on the integers up to \<open>2 ^ 53\<close>, which
  covers array lengths and millisecond timestamps; past that, and on a decimal with more
  digits than a double holds, the model keeps the exact value.
\<close>

datatype jsnum = NaN | NInf | PInf | NZero | Fin rat

fun is_zero :: "jsnum \<Rightarrow> bool" where
  "is_zero NZero = True"
| "is_zero (Fin r) = (r = 0)"
| "is_zero _ = False"

fun is_inf :: "jsnum \<Rightarrow> bool" where
  "is_inf NInf = True"
| "is_inf PInf = True"
| "is_inf _ = False"

fun is_neg :: "jsnum \<Rightarrow> bool" where
  "is_neg NInf = True"
| "is_neg NZero = True"
| "is_neg (Fin r) = (r < 0)"
| "is_neg _ = False"

text \<open>The value of a finite number (zero for the negative zero).\<close>

fun mag :: "jsnum \<Rightarrow> rat" where
  "mag (Fin r) = r"
| "mag _ = 0"

text \<open>\<^verbatim>\<open>a <= b\<close>: false as soon as one side is \<open>NaN\<close>.\<close>

fun js_le :: "jsnum \<Rightarrow> jsnum \<Rightarrow> bool" where
  "js_le NaN _ = False"
| "js_le _ NaN = False"
| "js_le NInf _ = True"
| "js_le _ PInf = True"
| "js_le PInf _ = False"
| "js_le _ NInf = False"
| "js_le a b = (mag a \<le> mag b)"


text \<open>\<^verbatim>\<open>a + b\<close>.\<close>

fun js_add :: "jsnum \<Rightarrow> jsnum \<Rightarrow> jsnum" where
  "js_add NaN _ = NaN"
| "js_add _ NaN = NaN"
| "js_add PInf NInf = NaN"
| "js_add NInf PInf = NaN"
| "js_add PInf _ = PInf"
| "js_add _ PInf = PInf"
| "js_add NInf _ = NInf"
| "js_add _ NInf = NInf"
| "js_add NZero NZero = NZero"
| "js_add a b = Fin (mag a + mag b)"

text \<open>
  \<^verbatim>\<open>a / b\<close>: \<open>0 / 0\<close> and \<open>Infinity / Infinity\<close> are \<open>NaN\<close>, a non-zero number over a zero is
  an infinity, and the sign of the result is the product of the signs.
\<close>

definition js_div :: "jsnum \<Rightarrow> jsnum \<Rightarrow> jsnum" where
  "js_div a b =
     (if a = NaN \<or> b = NaN then NaN
      else if is_inf a \<and> is_inf b then NaN
      else if is_zero a \<and> is_zero b then NaN
      else if is_inf a \<or> is_zero b then (if is_neg a = is_neg b then PInf else NInf)
      else if is_zero a \<or> is_inf b then (if is_neg a = is_neg b then Fin 0 else NZero)
      else Fin (mag a / mag b))"

text \<open>\<^verbatim>\<open>Math.ceil\<close>: a value in \<open>(-1, 0)\<close> rounds up to the negative zero.\<close>

fun js_ceil :: "jsnum \<Rightarrow> jsnum" where
  "js_ceil (Fin r) = (if r < 0 \<and> \<lceil>r\<rceil> = 0 then NZero else Fin (of_int \<lceil>r\<rceil>))"
| "js_ceil x = x"

text \<open>Truncation toward zero, the finite case of \<^verbatim>\<open>ToIntegerOrInfinity\<close>.\<close>

definition trunc :: "rat \<Rightarrow> int" where
  "trunc r = (if 0 \<le> r then \<lfloor>r\<rfloor> else \<lceil>r\<rceil>)"

section \<open>Arrays: \<^verbatim>\<open>slice\<close>, \<^verbatim>\<open>sort\<close>, \<^verbatim>\<open>split\<close>, \<^verbatim>\<open>includes\<close>\<close>

text \<open>
  \<^verbatim>\<open>Array.prototype.slice(start, end)\<close> turns each argument into a position of the array:
  \<open>NaN\<close> is \<open>0\<close>, a negative value counts from the end and stops at \<open>0\<close>, a value past
  the end stops at the length. It never raises.
\<close>

fun rel_index :: "nat \<Rightarrow> jsnum \<Rightarrow> nat" where
  "rel_index len NaN = 0"
| "rel_index len NInf = 0"
| "rel_index len PInf = len"
| "rel_index len NZero = 0"
| "rel_index len (Fin r) =
     (if trunc r < 0 then nat (max (int len + trunc r) 0) else nat (min (trunc r) (int len)))"

definition slice :: "'a list \<Rightarrow> jsnum \<Rightarrow> jsnum \<Rightarrow> 'a list" where
  "slice xs start stop =
     (let k = rel_index (length xs) start;
          final = rel_index (length xs) stop
      in take (final - k) (drop k xs))"

text \<open>
  \<^verbatim>\<open>Array.prototype.sort(cmp)\<close> is stable, and for a comparator that is a consistent
  ordering every stable algorithm returns the same array; insertion from the right stands
  for the engine's. An element goes before the first one it does not exceed.
\<close>

fun insert_by :: "('a \<Rightarrow> 'a \<Rightarrow> rat) \<Rightarrow> 'a \<Rightarrow> 'a list \<Rightarrow> 'a list" where
  "insert_by cmp x [] = [x]"
| "insert_by cmp x (y # ys) =
     (if cmp x y \<le> 0 then x # y # ys else y # insert_by cmp x ys)"

definition sort_by :: "('a \<Rightarrow> 'a \<Rightarrow> rat) \<Rightarrow> 'a list \<Rightarrow> 'a list" where
  "sort_by cmp xs = foldr (insert_by cmp) xs []"

text \<open>\<^verbatim>\<open>s.split(c)\<close> for a one-character separator: always at least one piece.\<close>

fun split_on :: "char \<Rightarrow> string \<Rightarrow> string list" where
  "split_on c [] = [[]]"
| "split_on c (x # xs) =
     (if x = c then [] # split_on c xs
      else (case split_on c xs of
              [] \<Rightarrow> [[x]]
            | w # ws \<Rightarrow> (x # w) # ws))"

text \<open>\<^verbatim>\<open>hay.includes(needle)\<close> on strings: \<open>needle\<close> occurs as a contiguous part.\<close>

fun starts_with :: "string \<Rightarrow> string \<Rightarrow> bool" where
  "starts_with hay [] = True"
| "starts_with [] (n # ns) = False"
| "starts_with (h # hs) (n # ns) = (h = n \<and> starts_with hs ns)"

fun includes_str :: "string \<Rightarrow> string \<Rightarrow> bool" where
  "includes_str [] needle = (needle = [])"
| "includes_str (h # hs) needle = (starts_with (h # hs) needle \<or> includes_str hs needle)"

text \<open>
  A string is modelled as its code units below 256. \<^verbatim>\<open>toLowerCase\<close> maps the capital
  letters among them (\<open>A\<close> to \<open>Z\<close>, and 192 to 222 but for the sign at 215) 32 places up.
\<close>

definition lower_char :: "char \<Rightarrow> char" where
  "lower_char c =
     (let n = (of_char c :: nat)
      in if (65 \<le> n \<and> n \<le> 90) \<or> (192 \<le> n \<and> n \<le> 214) \<or> (216 \<le> n \<and> n \<le> 222)
         then char_of (n + 32) else c)"

definition toLowerCase :: "string \<Rightarrow> string" where
  "toLowerCase s = map lower_char s"

section \<open>\<^verbatim>\<open>parseInt\<close> and \<^verbatim>\<open>parseFloat\<close>\<close>

text \<open>
  The white space both parsers skip: tab, line feed, vertical tab, form feed, carriage
  return, space and the no-break space.
\<close>

definition is_ws :: "char \<Rightarrow> bool" where
  "is_ws c = ((of_char c :: nat) \<in> {9, 10, 11, 12, 13, 32, 160})"

text \<open>
  The number a parser returns for a sign and a magnitude \<open>v \<ge> 0\<close>: a magnitude that
  rounds past the largest double is an infinity, one that rounds below the smallest is a
  zero, and the sign is kept on both.
\<close>

definition double_overflow :: rat where
  "double_overflow = 2 ^ 1024 - 2 ^ 970"

definition double_underflow :: rat where
  "double_underflow = 1 / 2 ^ 1075"

definition to_number :: "bool \<Rightarrow> rat \<Rightarrow> jsnum" where
  "to_number negative v =
     (if double_overflow \<le> v then (if negative then NInf else PInf)
      else if v \<le> double_underflow then (if negative then NZero else Fin 0)
      else Fin (if negative then - v else v))"

text \<open>The value of a digit or letter as a digit, as \<^verbatim>\<open>parseInt\<close> reads it.\<close>

definition digit_val :: "char \<Rightarrow> nat" where
  "digit_val c =
     (let n = (of_char c :: nat)
      in if 48 \<le> n \<and> n \<le> 57 then n - 48
         else if 97 \<le> n \<and> n \<le> 122 then n - 87
         else if 65 \<le> n \<and> n \<le> 90 then n - 55
         else 36)"

definition is_digit :: "nat \<Rightarrow> char \<Rightarrow> bool" where
  "is_digit radix c = (digit_val c < radix)"

definition digits_value :: "nat \<Rightarrow> string \<Rightarrow> nat" where
  "digits_value radix ds = foldl (\<lambda>a c. a * radix + digit_val c) 0 ds"

text \<open>An optional sign in front: whether it is a minus, and the rest.\<close>

fun strip_sign :: "string \<Rightarrow> bool \<times> string" where
  "strip_sign [] = (False, [])"
| "strip_sign (c # cs) =
     (if c = CHR ''-'' then (True, cs)
      else if c = CHR ''+'' then (False, cs)
      else (False, c # cs))"

text \<open>
  \<^verbatim>\<open>parseInt(s)\<close> with no radix: leading white space is skipped, a sign is read, a
  \<^verbatim>\<open>0x\<close> prefix selects base 16, and the longest run of digits is the value. No digit at
  all gives \<open>NaN\<close>; what follows the digits is ignored.
\<close>

definition parseInt :: "string \<Rightarrow> jsnum" where
  "parseInt s =
     (let (minus, s2) = strip_sign (dropWhile is_ws s);
          hex = (take 2 s2 = ''0x'' \<or> take 2 s2 = ''0X'');
          radix = (if hex then 16 else 10);
          ds = takeWhile (is_digit radix) (if hex then drop 2 s2 else s2)
      in if ds = [] then NaN
         else to_number minus (of_nat (digits_value radix ds)))"

text \<open>
  \<^verbatim>\<open>parseFloat(s)\<close>: leading white space is skipped and the longest prefix that is a
  decimal literal is read: a sign, then \<^verbatim>\<open>Infinity\<close> or digits with an optional fraction
  and an optional exponent (an exponent counts only with a digit in it). No such prefix
  gives \<open>NaN\<close>. The value is the decimal's own where it is in the range of the doubles;
  JavaScript rounds it to the nearest one.
\<close>

definition pow10 :: "int \<Rightarrow> rat" where
  "pow10 e = (if 0 \<le> e then 10 ^ nat e else 1 / 10 ^ nat (- e))"

definition read_exponent :: "string \<Rightarrow> int" where
  "read_exponent s =
     (case s of
        [] \<Rightarrow> 0
      | c # cs \<Rightarrow>
          if c = CHR ''e'' \<or> c = CHR ''E'' then
            (let (minus, r) = strip_sign cs;
                 ds = takeWhile (is_digit 10) r
             in if ds = [] then 0
                else if minus then - int (digits_value 10 ds)
                else int (digits_value 10 ds))
          else 0)"

definition parseFloat :: "string \<Rightarrow> jsnum" where
  "parseFloat s =
     (let (minus, s2) = strip_sign (dropWhile is_ws s)
      in if starts_with s2 ''Infinity'' then (if minus then NInf else PInf)
         else
           (let d1 = takeWhile (is_digit 10) s2;
                r1 = dropWhile (is_digit 10) s2;
                dot = (r1 \<noteq> [] \<and> hd r1 = CHR ''.'');
                d2 = (if dot then takeWhile (is_digit 10) (tl r1) else []);
                r2 = (if dot then dropWhile (is_digit 10) (tl r1) else r1);
                v = of_nat (digits_value 10 (d1 @ d2)) * pow10 (read_exponent r2 - int (length d2))
            in if d1 = [] \<and> d2 = [] then NaN
               else to_number minus v))"

section \<open>Data model\<close>

text \<open>
  A product as \<^verbatim>\<open>generateProduct\<close> builds it and \<^verbatim>\<open>products.json\<close> stores it, and the
  record kept for an API key. Time stamps of keys are milliseconds since the epoch.
\<close>

record product =
  id' :: int
  title :: string
  price :: rat
  description :: string
  category :: string
  images :: "string list"
  createdAt_p :: string
  updatedAt_p :: string

record key_record =
  expiresAt :: int
  createdAt :: int

text \<open>
  What the process gets from outside the repository: the master key of the environment
  (\<^verbatim>\<open>process.env.MASTER_KEY\<close>, possibly unset), the collation behind
  \<^verbatim>\<open>String.prototype.localeCompare\<close>, and the random fields \<^verbatim>\<open>faker\<close> draws for the
  product generated with a given id.
\<close>

record host =
  MASTER_KEY :: "string option"
  localeCompare :: "string \<Rightarrow> string \<Rightarrow> int"
  faker :: "int \<Rightarrow> product"

text \<open>
  The module's mutable state. Arrays of products are objects: \<open>heap\<close> maps an address
  to the array stored there and \<open>nxt\<close> is the next free address. The global \<^verbatim>\<open>products\<close>
  holds the address of the catalog array, \<^verbatim>\<open>apiKeys\<close> is the key store, and the two
  files hold what was last saved.
\<close>

record state =
  heap :: "nat \<Rightarrow> product list"
  nxt :: nat
  products :: nat
  apiKeys :: "string \<Rightarrow> key_record option"
  products_file :: "product list"
  apiKeys_file :: "string \<Rightarrow> key_record option"

type_synonym error = "nat \<times> string"

text \<open>A new array: \<^verbatim>\<open>[...a]\<close>, \<^verbatim>\<open>a.filter(f)\<close>, \<^verbatim>\<open>a.slice(i, j)\<close> and \<^verbatim>\<open>Array.from\<close> allocate.\<close>

definition alloc :: "product list \<Rightarrow> state \<Rightarrow> nat \<times> state" where
  "alloc xs st = (nxt st, st\<lparr>heap := (heap st)(nxt st := xs), nxt := Suc (nxt st)\<rparr>)"

definition array_filter :: "(product \<Rightarrow> bool) \<Rightarrow> nat \<Rightarrow> state \<Rightarrow> nat \<times> state" where
  "array_filter f a st = alloc (filter f (heap st a)) st"

definition array_slice :: "nat \<Rightarrow> jsnum \<Rightarrow> jsnum \<Rightarrow> state \<Rightarrow> nat \<times> state" where
  "array_slice a start stop st = alloc (slice (heap st a) start stop) st"

text \<open>\<^verbatim>\<open>a.sort(cmp)\<close> sorts the array in place.\<close>

definition array_sort :: "(product \<Rightarrow> product \<Rightarrow> rat) \<Rightarrow> nat \<Rightarrow> state \<Rightarrow> state" where
  "array_sort cmp a st = st\<lparr>heap := (heap st)(a := sort_by cmp (heap st a))\<rparr>"

section \<open>The key guard: \<^verbatim>\<open>validateApiKey\<close>\<close>

record request =
  path :: string
  x_api_key :: "string option"

datatype guard_result = Next | Reject nat string

text \<open>
  \<^verbatim>\<open>apiKeys\<close> is a plain object, so \<^verbatim>\<open>apiKeys[apiKey]\<close> also finds the properties every
  object inherits; such a value is truthy and has no \<^verbatim>\<open>expiresAt\<close>.
\<close>

definition object_prototype_names :: "string list" where
  "object_prototype_names =
     [''constructor'', ''__proto__'', ''hasOwnProperty'', ''isPrototypeOf'',
      ''propertyIsEnumerable'', ''toLocaleString'', ''toString'', ''valueOf'',
      ''__defineGetter__'', ''__defineSetter__'', ''__lookupGetter__'', ''__lookupSetter__'']"

text \<open>
  The middleware at time \<open>now\<close> (\<^verbatim>\<open>Date.now()\<close>). The key-generation path is let through;
  a missing or empty header, then an unknown key, are rejected; a key is expired when
  \<^verbatim>\<open>Date.now() > keyData.expiresAt\<close>, and then it is deleted and the store saved.
  Against an inherited property the comparison is with \<^verbatim>\<open>undefined\<close> and is false.
\<close>

definition validateApiKey :: "state \<Rightarrow> request \<Rightarrow> int \<Rightarrow> state \<times> guard_result" where
  "validateApiKey st req now =
     (if path req = ''/api/auth/generate-key'' then (st, Next)
      else
        (case x_api_key req of
           None \<Rightarrow> (st, Reject 401 ''API key is required'')
         | Some k \<Rightarrow>
             if k = [] then (st, Reject 401 ''API key is required'')
             else
               (case apiKeys st k of
                  None \<Rightarrow>
                    if k \<in> set object_prototype_names then (st, Next)
                    else (st, Reject 401 ''Invalid API key'')
                | Some keyData \<Rightarrow>
                    if now > expiresAt keyData then
                      (st\<lparr>apiKeys := (apiKeys st)(k := None),
                          apiKeys_file := (apiKeys st)(k := None)\<rparr>,
                       Reject 401 ''API key has expired'')
                    else (st, Next))))"

section \<open>Key issuance: \<^verbatim>\<open>POST /api/auth/generate-key\<close>\<close>

record key_request =
  expiresIn :: "string option"
  masterKey :: "string option"

record key_reply =
  apiKey :: string
  expiresAt_iso :: int

text \<open>
  The match of \<^verbatim>\<open>/^(\d+)([hdw])$/\<close>: one or more decimal digits, then one unit letter,
  and nothing else. The result is the two groups. \<open>durationMap\<close> is the table of the
  handler; no letter outside it passes the match.
\<close>

definition match_duration :: "string \<Rightarrow> (string \<times> char) option" where
  "match_duration s =
     (if s \<noteq> [] \<and> butlast s \<noteq> [] \<and> list_all (is_digit 10) (butlast s)
         \<and> last s \<in> set ''hdw''
      then Some (butlast s, last s) else None)"

definition durationMap :: "char \<Rightarrow> int" where
  "durationMap u =
     (if u = CHR ''h'' then 60 * 60 * 1000
      else if u = CHR ''d'' then 24 * 60 * 60 * 1000
      else if u = CHR ''w'' then 7 * 24 * 60 * 60 * 1000
      else 0)"

text \<open>
  The handler. \<^verbatim>\<open>Date.now()\<close> is read twice, first for \<^verbatim>\<open>expiresAt\<close> (\<open>now1\<close>), then for
  \<^verbatim>\<open>createdAt\<close> (\<open>now2\<close>); \<open>uuid\<close> is the token \<^verbatim>\<open>uuidv4()\<close> returns. On an all-digit string
  \<^verbatim>\<open>parseInt\<close> is the decimal value. The record is stored and saved before the reply is
  built, and \<^verbatim>\<open>toISOString\<close> raises a \<^verbatim>\<open>RangeError\<close> beyond the range of dates
  (8.64e15 ms), which the framework answers with status 500.
\<close>

definition generate_key ::
  "host \<Rightarrow> state \<Rightarrow> key_request \<Rightarrow> int \<Rightarrow> int \<Rightarrow> string \<Rightarrow> state \<times> (error + key_reply)" where
  "generate_key h st body now1 now2 uuid =
     (if masterKey body \<noteq> MASTER_KEY h then (st, Inl (403, ''Invalid master key''))
      else
        (case match_duration (case expiresIn body of None \<Rightarrow> ''1d'' | Some e \<Rightarrow> e) of
           None \<Rightarrow> (st, Inl (400, ''Invalid expiresIn format. Use format like 1h, 1d, 7d''))
         | Some (amount, unit) \<Rightarrow>
             (let durationMs = int (digits_value 10 amount) * durationMap unit;
                  expires = now1 + durationMs;
                  keys = (apiKeys st)(uuid \<mapsto> \<lparr>expiresAt = expires, createdAt = now2\<rparr>);
                  st' = st\<lparr>apiKeys := keys, apiKeys_file := keys\<rparr>
              in if 8640000000000000 < \<bar>expires\<bar>
                 then (st', Inl (500, ''RangeError: Invalid time value''))
                 else (st', Inr \<lparr>apiKey = uuid, expiresAt_iso = expires\<rparr>))))"

section \<open>The query pipeline: \<^verbatim>\<open>GET /api/products\<close>\<close>

text \<open>
  The query string: each parameter is absent or a string (a parameter given several times,
  which the framework delivers as an array, is outside the model).
\<close>

record query =
  q_limit :: "string option"
  q_offset :: "string option"
  q_sort :: "string option"
  q_order :: "string option"
  q_category :: "string option"
  q_minPrice :: "string option"
  q_maxPrice :: "string option"
  q_search :: "string option"

record page_info =
  total' :: nat
  limit :: jsnum
  offset :: jsnum
  totalPages :: jsnum

record reply =
  products' :: "product list"
  pagination :: page_info

text \<open>
  A default of the destructuring applies to an absent parameter only; \<^verbatim>\<open>parseInt(10)\<close>
  is \<open>10\<close>. An empty string is present, and \<^verbatim>\<open>parseInt\<close> reads it.
\<close>

definition resolve_limit :: "query \<Rightarrow> jsnum" where
  "resolve_limit q = (case q_limit q of None \<Rightarrow> Fin 10 | Some s \<Rightarrow> parseInt s)"

definition resolve_offset :: "query \<Rightarrow> jsnum" where
  "resolve_offset q = (case q_offset q of None \<Rightarrow> Fin 0 | Some s \<Rightarrow> parseInt s)"

definition resolve_sort :: "query \<Rightarrow> string" where
  "resolve_sort q = (case q_sort q of None \<Rightarrow> ''id'' | Some s \<Rightarrow> s)"

definition resolve_order :: "query \<Rightarrow> string" where
  "resolve_order q = (case q_order q of None \<Rightarrow> ''asc'' | Some s \<Rightarrow> s)"

text \<open>
  The test \<^verbatim>\<open>if (x)\<close> on an optional string: absent and empty are both falsy.
  \<^verbatim>\<open>minPrice ? parseFloat(minPrice) : undefined\<close> parses every non-empty string.
\<close>

definition truthy :: "string option \<Rightarrow> string option" where
  "truthy x = (case x of None \<Rightarrow> None | Some s \<Rightarrow> if s = [] then None else Some s)"

definition price_bound :: "string option \<Rightarrow> jsnum option" where
  "price_bound x = map_option parseFloat (truthy x)"

text \<open>The four filter predicates, as the arrow functions of the handler.\<close>

definition in_categories :: "string \<Rightarrow> product \<Rightarrow> bool" where
  "in_categories c p = (category p \<in> set (split_on CHR '','' c))"

definition price_at_least :: "jsnum \<Rightarrow> product \<Rightarrow> bool" where
  "price_at_least minPrice p = js_le minPrice (Fin (price p))"

definition price_at_most :: "jsnum \<Rightarrow> product \<Rightarrow> bool" where
  "price_at_most maxPrice p = js_le (Fin (price p)) maxPrice"

definition matches_search :: "string \<Rightarrow> product \<Rightarrow> bool" where
  "matches_search s p =
     (includes_str (toLowerCase (title p)) (toLowerCase s)
      \<or> includes_str (toLowerCase (description p)) (toLowerCase s))"

text \<open>The comparator passed to \<^verbatim>\<open>sort\<close>.\<close>

definition comparator :: "host \<Rightarrow> string \<Rightarrow> string \<Rightarrow> product \<Rightarrow> product \<Rightarrow> rat" where
  "comparator h sort_param order_param a b =
     (let comparison =
            (if sort_param = ''price'' then price a - price b
             else if sort_param = ''title'' then of_int (localeCompare h (title a) (title b))
             else of_int (id' a) - of_int (id' b))
      in if order_param = ''desc'' then - comparison else comparison)"

text \<open>
  The handler, in the three parts its comments name. \<open>fp\<close> is the variable
  \<^verbatim>\<open>filteredProducts\<close>: first a copy of the catalog, then the array each filter that
  applies returns; it is sorted in place, and the page is a slice of it.
\<close>

definition filter_stage :: "state \<Rightarrow> query \<Rightarrow> nat \<times> state" where
  "filter_stage st q =
     (let (fp, s1) = alloc (heap st (products st)) st;
          (fp, s2) = (case truthy (q_category q) of
                        None \<Rightarrow> (fp, s1)
                      | Some c \<Rightarrow> array_filter (in_categories c) fp s1);
          (fp, s3) = (case price_bound (q_minPrice q) of
                        None \<Rightarrow> (fp, s2)
                      | Some m \<Rightarrow> array_filter (price_at_least m) fp s2);
          (fp, s4) = (case price_bound (q_maxPrice q) of
                        None \<Rightarrow> (fp, s3)
                      | Some m \<Rightarrow> array_filter (price_at_most m) fp s3)
      in (case truthy (q_search q) of
            None \<Rightarrow> (fp, s4)
          | Some s \<Rightarrow> array_filter (matches_search s) fp s4))"

definition sort_stage :: "host \<Rightarrow> state \<Rightarrow> query \<Rightarrow> nat \<times> state" where
  "sort_stage h st q =
     (let (fp, s5) = filter_stage st q
      in (fp, array_sort (comparator h (resolve_sort q) (resolve_order q)) fp s5))"

definition get_products :: "host \<Rightarrow> state \<Rightarrow> query \<Rightarrow> state \<times> reply" where
  "get_products h st q =
     (let (fp, s6) = sort_stage h st q;
          (pg, s7) = array_slice fp (resolve_offset q)
                       (js_add (resolve_offset q) (resolve_limit q)) s6
      in (s7,
          \<lparr>products' = heap s7 pg,
           pagination =
             \<lparr>total' = length (heap s6 fp),
              limit = resolve_limit q,
              offset = resolve_offset q,
              totalPages =
                js_ceil (js_div (Fin (of_nat (length (heap s6 fp)))) (resolve_limit q))\<rparr>\<rparr>))"

text \<open>
  The array \<^verbatim>\<open>filteredProducts\<close> as the handler has it when the filters are done, and
  when the sort is done.
\<close>

definition filtered_array :: "state \<Rightarrow> query \<Rightarrow> product list" where
  "filtered_array st q = (let (fp, s5) = filter_stage st q in heap s5 fp)"

definition sorted_array :: "host \<Rightarrow> state \<Rightarrow> query \<Rightarrow> product list" where
  "sorted_array h st q = (let (fp, s6) = sort_stage h st q in heap s6 fp)"

text \<open>
  The same two arrays as functions of the catalog's contents and the query alone; the
  lemmas \<open>filtered_array_eq\<close> and \<open>sorted_array_eq\<close> below show that they agree.
\<close>

definition filter_if :: "('a \<Rightarrow> product \<Rightarrow> bool) \<Rightarrow> 'a option \<Rightarrow> product list \<Rightarrow> product list" where
  "filter_if f x ps = (case x of None \<Rightarrow> ps | Some v \<Rightarrow> filter (f v) ps)"

definition filteredProducts :: "product list \<Rightarrow> query \<Rightarrow> product list" where
  "filteredProducts ps q =
     filter_if matches_search (truthy (q_search q))
       (filter_if price_at_most (price_bound (q_maxPrice q))
          (filter_if price_at_least (price_bound (q_minPrice q))
             (filter_if in_categories (truthy (q_category q)) ps)))"

definition sortedProducts :: "host \<Rightarrow> product list \<Rightarrow> query \<Rightarrow> product list" where
  "sortedProducts h ps q =
     sort_by (comparator h (resolve_sort q) (resolve_order q)) (filteredProducts ps q)"

section \<open>The catalog: lookup by id and regeneration\<close>


text \<open>
  \<^verbatim>\<open>generateMockProducts(count)\<close> is \<^verbatim>\<open>Array.from({length: count}, ...)\<close>: a count below
  zero gives the empty array, a count of \<open>2 ^ 32\<close> or more is not an array length and
  raises a \<^verbatim>\<open>RangeError\<close>, and the product at index \<open>i\<close> gets the id \<open>i + 1\<close>. (What the
  process does when memory runs out is outside the model.)
\<close>

datatype exception = RangeError






section \<open>A small catalog for concrete runs\<close>

definition sample_product :: "int \<Rightarrow> string \<Rightarrow> rat \<Rightarrow> string \<Rightarrow> product" where
  "sample_product i t p c =
     \<lparr>id' = i, title = t, price = p, description = ''A product'', category = c,
      images = [], createdAt_p = ''2024-01-01T00:00:00.000Z'',
      updatedAt_p = ''2024-01-02T00:00:00.000Z''\<rparr>"

text \<open>The sample host collates by character code.\<close>

fun compare_codes :: "string \<Rightarrow> string \<Rightarrow> int" where
  "compare_codes [] [] = 0"
| "compare_codes [] (y # ys) = - 1"
| "compare_codes (x # xs) [] = 1"
| "compare_codes (x # xs) (y # ys) =
     (if (of_char x :: nat) < of_char y then - 1
      else if (of_char y :: nat) < of_char x then 1
      else compare_codes xs ys)"

definition sample_host :: host where
  "sample_host =
     \<lparr>MASTER_KEY = Some ''secret'',
      localeCompare = compare_codes,
      faker = (\<lambda>i. sample_product 0 ''Chair'' 25 ''Books'')\<rparr>"

definition sample_catalog :: "product list" where
  "sample_catalog =
     [sample_product 1 ''Lamp'' 20 ''Books'', sample_product 2 ''Desk'' 10 ''Toys & Games'']"

definition sample_state :: state where
  "sample_state =
     \<lparr>heap = (\<lambda>a. if a = 0 then sample_catalog else []),
      nxt = 1,
      products = 0,
      apiKeys = [''k1'' \<mapsto> \<lparr>expiresAt = 1000, createdAt = 0\<rparr>],
      products_file = sample_catalog,
      apiKeys_file = [''k1'' \<mapsto> \<lparr>expiresAt = 1000, createdAt = 0\<rparr>]\<rparr>"

definition no_params :: query where
  "no_params =
     \<lparr>q_limit = None, q_offset = None, q_sort = None, q_order = None, q_category = None,
      q_minPrice = None, q_maxPrice = None, q_search = None\<rparr>"

section \<open>Basic facts\<close>

lemmas parse_defs = parseInt_def parseFloat_def is_ws_def is_digit_def digit_val_def
  digits_value_def pow10_def read_exponent_def to_number_def double_overflow_def
  double_underflow_def

lemmas sample_defs = sample_state_def sample_host_def sample_catalog_def sample_product_def
  no_params_def

lemmas pipeline_defs = sortedProducts_def filteredProducts_def filter_if_def truthy_def
  price_bound_def resolve_limit_def resolve_offset_def resolve_sort_def resolve_order_def
  sort_by_def comparator_def slice_def trunc_def price_at_least_def price_at_most_def
  in_categories_def matches_search_def

lemma mset_insert_by: "mset (insert_by cmp x xs) = add_mset x (mset xs)"
  by (induction xs) auto

lemma mset_sort_by: "mset (sort_by cmp xs) = mset xs"
  unfolding sort_by_def by (induction xs) (auto simp: mset_insert_by)

lemma length_sort_by: "length (sort_by cmp xs) = length xs"
  using mset_sort_by [of cmp xs] by (metis size_mset)

lemma sort_by_Nil: "sort_by cmp [] = []"
  by (simp add: sort_by_def)

lemma slice_Nil: "slice [] a b = []"
  by (simp add: slice_def)

lemma filter_if_Nil: "filter_if f x [] = []"
  by (simp add: filter_if_def split: option.splits)

lemma filter_if_NaN_least: "filter_if price_at_least (Some NaN) ps = []"
  by (simp add: filter_if_def price_at_least_def)

lemma filter_if_NaN_most: "filter_if price_at_most (Some NaN) ps = []"
  by (simp add: filter_if_def price_at_most_def)

lemmas handler_defs = get_products_def sort_stage_def filter_stage_def alloc_def
  array_filter_def array_slice_def array_sort_def Let_def

lemma filtered_array_eq: "filtered_array st q = filteredProducts (heap st (products st)) q"
  by (simp add: filtered_array_def filter_stage_def filteredProducts_def filter_if_def
      alloc_def array_filter_def Let_def split: option.splits)

lemma sorted_array_eq: "sorted_array h st q = sortedProducts h (heap st (products st)) q"
  by (simp add: sorted_array_def sort_stage_def filter_stage_def sortedProducts_def
      filteredProducts_def filter_if_def alloc_def array_filter_def array_sort_def Let_def
      split: option.splits)

lemma length_sorted_array: "length (sorted_array h st q) = length (filtered_array st q)"
  by (simp add: sorted_array_eq filtered_array_eq sortedProducts_def length_sort_by)

lemma mset_sorted_array: "mset (sorted_array h st q) = mset (filtered_array st q)"
  by (simp add: sorted_array_eq filtered_array_eq sortedProducts_def mset_sort_by)

text \<open>
  The reply of the handler, read off the arrays it allocates: the page is the slice of the
  filtered and sorted contents of the catalog, and \<open>total'\<close> is their number.
\<close>

lemma get_products_reply:
  "snd (get_products h st q) =
     \<lparr>products' = slice (sortedProducts h (heap st (products st)) q) (resolve_offset q)
                    (js_add (resolve_offset q) (resolve_limit q)),
      pagination =
        \<lparr>total' = length (filteredProducts (heap st (products st)) q),
         limit = resolve_limit q,
         offset = resolve_offset q,
         totalPages =
           js_ceil (js_div (Fin (of_nat (length (filteredProducts (heap st (products st)) q))))
                      (resolve_limit q))\<rparr>\<rparr>"
  by (simp add: handler_defs sortedProducts_def filteredProducts_def filter_if_def
      length_sort_by split: option.splits)

text \<open>The handler writes to fresh addresses only and leaves the globals alone.\<close>

lemma get_products_frame:
  assumes "a < nxt st"
  shows "heap (fst (get_products h st q)) a = heap st a"
    and "products (fst (get_products h st q)) = products st"
    and "apiKeys (fst (get_products h st q)) = apiKeys st"
    and "nxt st \<le> nxt (fst (get_products h st q))"
  using assms
  by (simp_all add: handler_defs split: option.splits)

section \<open>Malformed price bounds\<close>

text \<open>
  An absent or empty \<^verbatim>\<open>minPrice\<close> or \<^verbatim>\<open>maxPrice\<close> switches the filter off.
\<close>

lemma empty_price_bound_is_absent:
  "get_products h st (q\<lparr>q_minPrice := Some []\<rparr>) = get_products h st (q\<lparr>q_minPrice := None\<rparr>)"
  "get_products h st (q\<lparr>q_maxPrice := Some []\<rparr>) = get_products h st (q\<lparr>q_maxPrice := None\<rparr>)"
  by (simp_all add: get_products_def sort_stage_def filter_stage_def price_bound_def
      truthy_def resolve_limit_def resolve_offset_def resolve_sort_def resolve_order_def)

text \<open>
  C1, as the spec states it, fails: on the sample catalog the request with
  \<^verbatim>\<open>minPrice=abc\<close> returns no product, while the request without \<^verbatim>\<open>minPrice\<close> returns
  the whole catalog. \<^verbatim>\<open>parseFloat\<close> gives \<open>NaN\<close>, which is not \<^verbatim>\<open>undefined\<close>, so the filter
  runs, and no price is at least \<open>NaN\<close>.
\<close>

theorem malformed_price_bound_not_absent:
  "parseFloat ''abc'' = NaN \<and>
   products' (snd (get_products sample_host sample_state
                     (no_params\<lparr>q_minPrice := Some ''abc''\<rparr>))) = [] \<and>
   products' (snd (get_products sample_host sample_state no_params)) = sample_catalog"
  by (simp add: get_products_reply parse_defs sample_defs pipeline_defs)

text \<open>
  C1, amended: when \<^verbatim>\<open>minPrice\<close> or \<^verbatim>\<open>maxPrice\<close> is a non-empty string that does not parse
  as a number, the price filter is applied with \<open>NaN\<close> as its bound and rejects every
  product: the page is empty and the total is zero. The handler still answers (it has no
  error reply).
\<close>

theorem malformed_price_bound_empties_result:
  assumes "q_minPrice q = Some s \<or> q_maxPrice q = Some s"
    and "s \<noteq> []"
    and "parseFloat s = NaN"
  shows "products' (snd (get_products h st q)) = [] \<and>
         total' (pagination (snd (get_products h st q))) = 0"
proof -
  have "price_bound (q_minPrice q) = Some NaN \<or> price_bound (q_maxPrice q) = Some NaN"
    using assms by (auto simp: price_bound_def truthy_def)
  then have "filteredProducts (heap st (products st)) q = []"
    by (auto simp: filteredProducts_def filter_if_NaN_least filter_if_NaN_most filter_if_Nil)
  then show ?thesis
    by (simp add: get_products_reply sortedProducts_def sort_by_Nil slice_Nil)
qed

theorem malformed_price_bound_empties_result_witness:
  "products' (snd (get_products sample_host sample_state
                     (no_params\<lparr>q_maxPrice := Some ''abc''\<rparr>))) = [] \<and>
   total' (pagination (snd (get_products sample_host sample_state
                              (no_params\<lparr>q_maxPrice := Some ''abc''\<rparr>)))) = 0"
proof -
  have "parseFloat ''abc'' = NaN"
    by (simp add: parse_defs)
  then show ?thesis
    using malformed_price_bound_empties_result
      [of "no_params\<lparr>q_maxPrice := Some ''abc''\<rparr>" "''abc''" sample_host sample_state]
    by (simp add: no_params_def)
qed

section \<open>Expiry of keys\<close>

text \<open>
  C2, as the spec states it, fails at the instant of expiry: the sample key expires at
  \<open>1000\<close>, and a request validated at \<open>now = 1000\<close> passes and leaves the store as it
  was, where the claim has \<open>Expired\<close> and an eviction for \<open>now >= expiresAt\<close>. The test of
  the middleware is \<^verbatim>\<open>Date.now() > keyData.expiresAt\<close>.
\<close>

theorem key_valid_at_expiry_instant:
  "apiKeys sample_state ''k1'' = Some \<lparr>expiresAt = 1000, createdAt = 0\<rparr> \<and>
   validateApiKey sample_state \<lparr>path = ''/api/products'', x_api_key = Some ''k1''\<rparr> 1000
     = (sample_state, Next)"
  by (simp add: validateApiKey_def sample_state_def)

text \<open>
  C2, amended: for a request outside the key-generation path that carries a token present
  in the key store, the guard lets it through exactly when \<open>now \<le> expiresAt\<close>, and then
  the store is unchanged; when \<open>now > expiresAt\<close> it answers 401 "API key has expired",
  deletes the record and saves the store, so the token is absent from then on.
\<close>

theorem validateApiKey_expiry:
  assumes "path req \<noteq> ''/api/auth/generate-key''"
    and "x_api_key req = Some k"
    and "k \<noteq> []"
    and "apiKeys st k = Some keyData"
  shows "validateApiKey st req now =
           (if now \<le> expiresAt keyData then (st, Next)
            else (st\<lparr>apiKeys := (apiKeys st)(k := None),
                     apiKeys_file := (apiKeys st)(k := None)\<rparr>,
                  Reject 401 ''API key has expired'')) \<and>
         (snd (validateApiKey st req now) = Next) = (now \<le> expiresAt keyData) \<and>
         (apiKeys (fst (validateApiKey st req now)) k = None) = (expiresAt keyData < now)"
  using assms by (auto simp: validateApiKey_def)

theorem validateApiKey_expiry_witness:
  "validateApiKey sample_state \<lparr>path = ''/api/products'', x_api_key = Some ''k1''\<rparr> 999
     = (sample_state, Next) \<and>
   snd (validateApiKey sample_state \<lparr>path = ''/api/products'', x_api_key = Some ''k1''\<rparr> 1001)
     = Reject 401 ''API key has expired'' \<and>
   apiKeys (fst (validateApiKey sample_state
                   \<lparr>path = ''/api/products'', x_api_key = Some ''k1''\<rparr> 1001)) ''k1'' = None"
  using validateApiKey_expiry
          [of "\<lparr>path = ''/api/products'', x_api_key = Some ''k1''\<rparr>" "''k1''" sample_state
              "\<lparr>expiresAt = 1000, createdAt = 0\<rparr>" 999]
        validateApiKey_expiry
          [of "\<lparr>path = ''/api/products'', x_api_key = Some ''k1''\<rparr>" "''k1''" sample_state
              "\<lparr>expiresAt = 1000, createdAt = 0\<rparr>" 1001]
  by (simp add: sample_state_def)

section \<open>The page count\<close>

text \<open>
  What \<^verbatim>\<open>parseInt\<close> returns, and so what \<^verbatim>\<open>limit\<close> can resolve to: \<open>NaN\<close>, a zero of
  either sign, an infinity (for a value past the largest double) or an integer.
\<close>

lemma parseInt_cases:
  "parseInt s = NaN \<or> parseInt s = NZero \<or> parseInt s = PInf \<or> parseInt s = NInf \<or>
   (\<exists>l. parseInt s = Fin (of_int l))"
proof -
  have "\<exists>l. Fin (of_nat n) = Fin (of_int l)" for n
    by (metis of_int_of_nat_eq)
  moreover have "\<exists>l. Fin (- of_nat n) = Fin (of_int l)" for n
    by (metis of_int_of_nat_eq of_int_minus)
  ultimately show ?thesis
    by (auto simp: parseInt_def to_number_def Let_def split: prod.splits)
qed

text \<open>
  C3, as the spec states it, fails: with \<^verbatim>\<open>limit=0\<close> on the sample catalog of two
  products, \<open>totalPages\<close> is \<^verbatim>\<open>Math.ceil(2 / 0)\<close>, that is \<open>Infinity\<close>, not \<open>0\<close>, and with
  \<^verbatim>\<open>limit=-1\<close> it is \<^verbatim>\<open>Math.ceil(2 / -1)\<close>, that is \<open>-2\<close>, not \<open>0\<close>. The division is not
  guarded.
\<close>

theorem totalPages_infinite_at_zero_limit:
  "resolve_limit (no_params\<lparr>q_limit := Some ''0''\<rparr>) = Fin 0 \<and>
   totalPages (pagination (snd (get_products sample_host sample_state
                                  (no_params\<lparr>q_limit := Some ''0''\<rparr>)))) = PInf \<and>
   resolve_limit (no_params\<lparr>q_limit := Some ''-1''\<rparr>) = Fin (- 1) \<and>
   totalPages (pagination (snd (get_products sample_host sample_state
                                  (no_params\<lparr>q_limit := Some ''-1''\<rparr>)))) = Fin (- 2)"
  by (simp add: get_products_reply parse_defs sample_defs pipeline_defs js_div_def
      ceiling_minus)

text \<open>
  C3, amended: for every request, \<open>total'\<close> is the number of products after filtering and
  \<open>totalPages\<close> is \<^verbatim>\<open>Math.ceil(total / limit)\<close> as JavaScript computes it. For every limit
  that resolves to a non-zero number \<open>l\<close>, positive or negative, this is the integer
  ceiling of \<open>total / l\<close> (as the negative zero when that is zero and \<open>l\<close> is negative).
  When the limit resolves to \<open>0\<close> it is \<open>Infinity\<close> for a non-empty result and \<open>NaN\<close> for
  an empty one, and for \<^verbatim>\<open>limit=-0\<close> it is \<open>-Infinity\<close> or \<open>NaN\<close>. An unparsable limit
  gives \<open>NaN\<close> and an infinite one a zero. Nothing sets it to \<open>0\<close> for a limit at or below
  zero.
\<close>

theorem totalPages_by_limit:
  "total' (pagination (snd (get_products h st q))) = length (filtered_array st q) \<and>
   totalPages (pagination (snd (get_products h st q))) =
     (case resolve_limit q of
        Fin l \<Rightarrow>
          if l = 0 then (if length (filtered_array st q) = 0 then NaN else PInf)
          else if l < 0 \<and> \<lceil>of_nat (length (filtered_array st q)) / l\<rceil> = 0 then NZero
          else Fin (of_int \<lceil>of_nat (length (filtered_array st q)) / l\<rceil>)
      | NZero \<Rightarrow> if length (filtered_array st q) = 0 then NaN else NInf
      | NaN \<Rightarrow> NaN
      | PInf \<Rightarrow> Fin 0
      | NInf \<Rightarrow> NZero)"
proof -
  let ?n = "length (filtered_array st q)"
  have tp: "totalPages (pagination (snd (get_products h st q)))
            = js_ceil (js_div (Fin (of_nat ?n)) (resolve_limit q))"
    by (simp add: get_products_reply filtered_array_eq)
  have fin: "js_ceil (js_div (Fin (of_nat ?n)) (Fin l)) =
      (if l = 0 then (if ?n = 0 then NaN else PInf)
       else if l < 0 \<and> \<lceil>of_nat ?n / l\<rceil> = 0 then NZero
       else Fin (of_int \<lceil>of_nat ?n / l\<rceil>))" for l :: rat
  proof (cases "?n = 0")
    case True
    then show ?thesis
      by (simp add: js_div_def)
  next
    case False
    then have n: "(0::rat) < of_nat ?n"
      by simp
    show ?thesis
    proof (cases "l = 0")
      case True
      then show ?thesis
        using False by (simp add: js_div_def)
    next
      case nz: False
      have "(of_nat ?n / l < 0) = (l < 0)"
        using n by (simp add: divide_less_0_iff)
      then show ?thesis
        using nz False by (simp add: js_div_def)
    qed
  qed
  have "total' (pagination (snd (get_products h st q))) = ?n"
    by (simp add: get_products_reply filtered_array_eq)
  then show ?thesis
    unfolding tp by (cases "resolve_limit q") (simp_all add: fin, simp_all add: js_div_def)
qed

text \<open>The theorem at work on the sample catalog: one product a page, and \<^verbatim>\<open>limit=-0\<close>.\<close>

theorem totalPages_by_limit_witness:
  "totalPages (pagination (snd (get_products sample_host sample_state
                                  (no_params\<lparr>q_limit := Some ''1''\<rparr>)))) = Fin 2 \<and>
   totalPages (pagination (snd (get_products sample_host sample_state
                                  (no_params\<lparr>q_limit := Some ''-0''\<rparr>)))) = NInf"
proof -
  have "resolve_limit (no_params\<lparr>q_limit := Some ''1''\<rparr>) = Fin 1"
    and "resolve_limit (no_params\<lparr>q_limit := Some ''-0''\<rparr>) = NZero"
    by (simp_all add: resolve_limit_def parse_defs)
  with totalPages_by_limit [of sample_host sample_state "no_params\<lparr>q_limit := Some ''1''\<rparr>"]
       totalPages_by_limit [of sample_host sample_state "no_params\<lparr>q_limit := Some ''-0''\<rparr>"]
  show ?thesis
    by (simp add: filtered_array_eq sample_defs pipeline_defs)
qed

section \<open>Defaults and unparsable \<^verbatim>\<open>limit\<close> and \<^verbatim>\<open>offset\<close>\<close>

lemma js_add_NaN_right: "js_add a NaN = NaN"
  by (cases a) simp_all

lemma slice_stop_NaN: "slice xs a NaN = []"
  by (simp add: slice_def)

text \<open>
  C4, as the spec states it, fails for a parameter that is present and unparsable: with
  \<^verbatim>\<open>limit=abc\<close> the sample request returns no product, with \<^verbatim>\<open>limit=10\<close> it returns the
  catalog. \<^verbatim>\<open>parseInt\<close> gives \<open>NaN\<close> and the slice ends at \<open>NaN\<close>, which is position \<open>0\<close>.
\<close>

theorem unparsable_limit_not_defaulted:
  "parseInt ''abc'' = NaN \<and>
   products' (snd (get_products sample_host sample_state
                     (no_params\<lparr>q_limit := Some ''abc''\<rparr>))) = [] \<and>
   products' (snd (get_products sample_host sample_state
                     (no_params\<lparr>q_limit := Some ''10''\<rparr>))) = sample_catalog"
  by (simp add: get_products_reply parse_defs sample_defs pipeline_defs)

text \<open>
  C4, amended: a request without \<^verbatim>\<open>limit\<close> behaves as the same request with
  \<^verbatim>\<open>limit=10\<close>, and one without \<^verbatim>\<open>offset\<close> as with \<^verbatim>\<open>offset=0\<close>. A \<^verbatim>\<open>limit\<close> or
  \<^verbatim>\<open>offset\<close> that is present and does not parse as an integer is not replaced by the
  default: the page is empty and the reply carries \<open>NaN\<close> for it (and for \<open>totalPages\<close>
  when it is the limit).
\<close>

theorem limit_offset_defaults:
  "get_products h st (q\<lparr>q_limit := None\<rparr>) = get_products h st (q\<lparr>q_limit := Some ''10''\<rparr>) \<and>
   get_products h st (q\<lparr>q_offset := None\<rparr>) = get_products h st (q\<lparr>q_offset := Some ''0''\<rparr>) \<and>
   (parseInt s = NaN \<longrightarrow>
      products' (snd (get_products h st (q\<lparr>q_limit := Some s\<rparr>))) = [] \<and>
      limit (pagination (snd (get_products h st (q\<lparr>q_limit := Some s\<rparr>)))) = NaN \<and>
      totalPages (pagination (snd (get_products h st (q\<lparr>q_limit := Some s\<rparr>)))) = NaN \<and>
      products' (snd (get_products h st (q\<lparr>q_offset := Some s\<rparr>))) = [] \<and>
      offset (pagination (snd (get_products h st (q\<lparr>q_offset := Some s\<rparr>)))) = NaN)"
proof -
  have ten: "parseInt ''10'' = Fin 10" and zero: "parseInt ''0'' = Fin 0"
    by (simp_all add: parse_defs)
  have "get_products h st (q\<lparr>q_limit := None\<rparr>)
        = get_products h st (q\<lparr>q_limit := Some ''10''\<rparr>)"
    by (simp add: get_products_def sort_stage_def filter_stage_def resolve_limit_def
        resolve_offset_def resolve_sort_def resolve_order_def ten)
  moreover have "get_products h st (q\<lparr>q_offset := None\<rparr>)
        = get_products h st (q\<lparr>q_offset := Some ''0''\<rparr>)"
    by (simp add: get_products_def sort_stage_def filter_stage_def resolve_limit_def
        resolve_offset_def resolve_sort_def resolve_order_def zero)
  moreover have "parseInt s = NaN \<Longrightarrow>
      products' (snd (get_products h st (q\<lparr>q_limit := Some s\<rparr>))) = [] \<and>
      limit (pagination (snd (get_products h st (q\<lparr>q_limit := Some s\<rparr>)))) = NaN \<and>
      totalPages (pagination (snd (get_products h st (q\<lparr>q_limit := Some s\<rparr>)))) = NaN \<and>
      products' (snd (get_products h st (q\<lparr>q_offset := Some s\<rparr>))) = [] \<and>
      offset (pagination (snd (get_products h st (q\<lparr>q_offset := Some s\<rparr>)))) = NaN"
    by (simp add: get_products_reply resolve_limit_def resolve_offset_def js_add_NaN_right
        slice_stop_NaN js_div_def)
  ultimately show ?thesis
    by blast
qed

theorem limit_offset_defaults_witness:
  "products' (snd (get_products sample_host sample_state
                     (no_params\<lparr>q_limit := Some ''abc''\<rparr>))) = [] \<and>
   products' (snd (get_products sample_host sample_state
                     (no_params\<lparr>q_offset := Some ''abc''\<rparr>))) = [] \<and>
   get_products sample_host sample_state (no_params\<lparr>q_limit := None\<rparr>) =
     get_products sample_host sample_state (no_params\<lparr>q_limit := Some ''10''\<rparr>)"
proof -
  have "parseInt ''abc'' = NaN"
    by (simp add: parse_defs)
  then show ?thesis
    using limit_offset_defaults [of sample_host sample_state no_params "''abc''"] by simp
qed

section \<open>Offsets outside the sequence\<close>

lemma rel_index_past_end:
  assumes "js_le (Fin (of_nat n)) a"
  shows "rel_index n a = n"
proof (cases a)
  case (Fin r)
  then have le: "of_nat n \<le> r"
    using assms by simp
  then have "int n \<le> \<lfloor>r\<rfloor>"
    by (simp add: le_floor_iff)
  moreover have "0 \<le> r"
    using le by (meson of_nat_0_le_iff order_trans)
  ultimately show ?thesis
    using Fin by (simp add: trunc_def)
qed (use assms in auto)

lemma slice_past_end:
  assumes "js_le (Fin (of_nat (length xs))) a"
  shows "slice xs a b = []"
  using rel_index_past_end [OF assms] by (simp add: slice_def)

text \<open>
  C5, as the spec states it, fails for a negative offset: \<open>-1\<close> is outside the bounds of
  the two-product sequence, and the page is its last product, since \<^verbatim>\<open>slice\<close> counts a
  negative start from the end.
\<close>

theorem negative_offset_page_not_empty:
  "parseInt ''-1'' = Fin (- 1) \<and>
   products' (snd (get_products sample_host sample_state
                     (no_params\<lparr>q_offset := Some ''-1''\<rparr>)))
     = [sample_product 2 ''Desk'' 10 ''Toys & Games'']"
  by (simp add: get_products_reply parse_defs sample_defs pipeline_defs ceiling_minus)

text \<open>
  C5, amended: when the offset resolves to a number at or past the end of the filtered
  and sorted sequence (\<^verbatim>\<open>total <= offset\<close>, \<open>Infinity\<close> included), the page is empty; the
  handler has no error reply, so no bounds error is raised.
\<close>

theorem offset_past_end_gives_empty_page:
  assumes "js_le (Fin (of_nat (total' (pagination (snd (get_products h st q))))))
             (resolve_offset q)"
  shows "products' (snd (get_products h st q)) = []"
proof -
  have "length (sortedProducts h (heap st (products st)) q) =
        total' (pagination (snd (get_products h st q)))"
    by (simp add: get_products_reply sortedProducts_def length_sort_by)
  then show ?thesis
    using assms by (simp add: get_products_reply slice_past_end)
qed

theorem offset_past_end_gives_empty_page_witness:
  "products' (snd (get_products sample_host sample_state
                     (no_params\<lparr>q_offset := Some ''2''\<rparr>))) = []"
proof -
  have "js_le (Fin (of_nat (total' (pagination (snd (get_products sample_host sample_state
                                                      (no_params\<lparr>q_offset := Some ''2''\<rparr>)))))))
          (resolve_offset (no_params\<lparr>q_offset := Some ''2''\<rparr>))"
    by (simp add: get_products_reply parse_defs sample_defs pipeline_defs)
  from offset_past_end_gives_empty_page [OF this] show ?thesis .
qed

section \<open>Filtering is conjunctive\<close>

text \<open>
  C6: for every catalog and every combination of \<^verbatim>\<open>category\<close>, \<^verbatim>\<open>minPrice\<close>,
  \<^verbatim>\<open>maxPrice\<close> and \<^verbatim>\<open>search\<close>, the products that survive the four filters together are
  those in the intersection of the four results each filter leaves when the other three
  parameters are absent.
\<close>

theorem filtering_is_conjunctive:
  "set (filtered_array st q) =
     set (filtered_array st (q\<lparr>q_minPrice := None, q_maxPrice := None, q_search := None\<rparr>)) \<inter>
     set (filtered_array st (q\<lparr>q_category := None, q_maxPrice := None, q_search := None\<rparr>)) \<inter>
     set (filtered_array st (q\<lparr>q_category := None, q_minPrice := None, q_search := None\<rparr>)) \<inter>
     set (filtered_array st (q\<lparr>q_category := None, q_minPrice := None, q_maxPrice := None\<rparr>))"
  by (auto simp: filtered_array_eq filteredProducts_def filter_if_def price_bound_def
      truthy_def split: option.splits)

section \<open>Pagination is a slice\<close>

lemma trunc_of_nat: "trunc (of_nat a) = int a"
  by (simp add: trunc_def)

lemma rel_index_of_nat: "rel_index n (Fin (of_nat a)) = min a n"
  by (simp add: trunc_of_nat)

lemma slice_page:
  "slice xs (Fin (of_nat a)) (js_add (Fin (of_nat a)) (Fin (of_nat l))) = take l (drop a xs)"
proof -
  have "js_add (Fin (of_nat a)) (Fin (of_nat l)) = Fin (of_nat (a + l))"
    by simp
  then have "slice xs (Fin (of_nat a)) (js_add (Fin (of_nat a)) (Fin (of_nat l)))
      = take (min (a + l) (length xs) - min a (length xs)) (drop (min a (length xs)) xs)"
    by (simp only: slice_def rel_index_of_nat Let_def)
  also have "\<dots> = take l (drop a xs)"
    by (cases "a \<le> length xs") (simp_all add: min_def)
  finally show ?thesis .
qed

lemma concat_pages: "concat (map (\<lambda>k. take l (drop (k * l) xs)) [0..<n]) = take (n * l) xs"
proof (induction n)
  case 0
  then show ?case by simp
next
  case (Suc n)
  have "Suc n * l = n * l + l"
    by simp
  then have "take (Suc n * l) xs = take (n * l) xs @ take l (drop (n * l) xs)"
    by (simp only: take_add)
  with Suc show ?case by simp
qed

lemma sortedProducts_offset:
  "sortedProducts h ps (q\<lparr>q_offset := x\<rparr>) = sortedProducts h ps q"
  by (simp add: sortedProducts_def filteredProducts_def resolve_sort_def resolve_order_def)

text \<open>
  C7: for every catalog, every filter and sort parameters and every limit \<open>l \<ge> 1\<close>, the
  pages requested at offsets \<open>0, l, 2 l, \<dots>\<close> (the \<open>k\<close>-th offset string parsing to
  \<open>k * l\<close>), enough of them to cover the sequence, concatenate to the filtered and sorted
  sequence itself, which holds each filtered product exactly once.
\<close>

theorem pages_reconstruct_sequence:
  assumes "resolve_limit q = Fin (of_nat l)"
    and "1 \<le> l"
    and "length (sorted_array h st q) \<le> n * l"
    and "\<forall>k<n. parseInt (offs k) = Fin (of_nat (k * l))"
  shows "concat (map (\<lambda>k. products' (snd (get_products h st (q\<lparr>q_offset := Some (offs k)\<rparr>))))
                   [0..<n])
           = sorted_array h st q \<and>
         mset (concat (map (\<lambda>k. products' (snd (get_products h st
                                                   (q\<lparr>q_offset := Some (offs k)\<rparr>))))
                         [0..<n]))
           = mset (filtered_array st q)"
proof -
  let ?xs = "sortedProducts h (heap st (products st)) q"
  let ?page = "\<lambda>k. products' (snd (get_products h st (q\<lparr>q_offset := Some (offs k)\<rparr>)))"
  have page: "?page k = take l (drop (k * l) ?xs)" if "k < n" for k
  proof -
    have "resolve_offset (q\<lparr>q_offset := Some (offs k)\<rparr>) = Fin (of_nat (k * l))"
      using assms(4) that by (simp add: resolve_offset_def)
    moreover have "resolve_limit (q\<lparr>q_offset := Some (offs k)\<rparr>) = Fin (of_nat l)"
      using assms(1) by (simp add: resolve_limit_def)
    ultimately show ?thesis
      by (simp only: get_products_reply sortedProducts_offset slice_page reply.simps)
  qed
  have "map ?page [0..<n] = map (\<lambda>k. take l (drop (k * l) ?xs)) [0..<n]"
    by (rule map_cong) (simp_all add: page)
  then have "concat (map ?page [0..<n]) = take (n * l) ?xs"
    by (simp only: concat_pages)
  then have "concat (map ?page [0..<n]) = ?xs"
    using assms(3) by (simp add: sorted_array_eq)
  then have whole: "concat (map ?page [0..<n]) = sorted_array h st q"
    by (simp only: sorted_array_eq)
  with mset_sorted_array [of h st q] show ?thesis
    by simp
qed

theorem pages_reconstruct_sequence_witness:
  "concat (map (\<lambda>k. products' (snd (get_products sample_host sample_state
       (no_params\<lparr>q_limit := Some ''1'', q_offset := Some (if k = 0 then ''0'' else ''1'')\<rparr>))))
     [0..<2])
   = sample_catalog"
proof -
  let ?q = "no_params\<lparr>q_limit := Some ''1''\<rparr>"
  have sorted: "sorted_array sample_host sample_state ?q = sample_catalog"
    by (simp add: sorted_array_eq sample_defs pipeline_defs)
  have lim: "resolve_limit ?q = Fin (of_nat 1)"
    by (simp add: resolve_limit_def parse_defs)
  have len: "length (sorted_array sample_host sample_state ?q) \<le> 2 * 1"
    by (simp add: sorted) (simp add: sample_catalog_def)
  have offs: "\<forall>k<2. parseInt (if k = 0 then ''0'' else ''1'') = Fin (of_nat (k * 1))"
    by (auto simp: parse_defs less_Suc_eq numeral_2_eq_2)
  from pages_reconstruct_sequence [OF lim _ len offs] sorted show ?thesis
    by simp
qed

section \<open>The lifetime of an issued key\<close>

lemma match_duration_snoc:
  assumes "ds \<noteq> []" and "list_all (is_digit 10) ds" and "u \<in> set ''hdw''"
  shows "match_duration (ds @ [u]) = Some (ds, u)"
  using assms by (simp add: match_duration_def)

text \<open>
  C8, as the spec states it, fails when the clock advances between the two readings: a key
  issued for \<^verbatim>\<open>1h\<close> with \<open>Date.now()\<close> reading \<open>1000\<close> for \<open>expiresAt\<close> and \<open>1001\<close> for
  \<open>createdAt\<close> is stored with \<open>expiresAt - createdAt\<close> one millisecond short of the hour.
\<close>

theorem issued_key_lifetime_short_by_clock_tick:
  "apiKeys (fst (generate_key sample_host sample_state
                   \<lparr>expiresIn = Some ''1h'', masterKey = Some ''secret''\<rparr> 1000 1001 ''u'')) ''u''
     = Some \<lparr>expiresAt = 3601000, createdAt = 1001\<rparr> \<and>
   (3601000 - 1001 :: int) \<noteq> 1 * 3600000"
  by (simp add: generate_key_def match_duration_def durationMap_def sample_host_def
      is_digit_def digit_val_def digits_value_def Let_def)

text \<open>
  C8, amended: for an issuance request with the right master key whose \<^verbatim>\<open>expiresIn\<close> (or
  the default \<^verbatim>\<open>1d\<close>) is a run of digits \<open>ds\<close> and a unit \<open>u\<close> of \<^verbatim>\<open>h\<close>, \<^verbatim>\<open>d\<close>, \<^verbatim>\<open>w\<close>,
  with times in the range where doubles are exact, the stored record has
  \<open>expiresAt = now1 + amount * multiplier\<close> for the first clock reading and
  \<open>createdAt = now2\<close> for the second, the multiplier being 3600000, 86400000 or 604800000.
  So \<open>expiresAt - createdAt\<close> is the duration less the time between the two readings.
\<close>

theorem issued_key_expiry:
  assumes "masterKey body = MASTER_KEY h"
    and "(case expiresIn body of None \<Rightarrow> ''1d'' | Some e \<Rightarrow> e) = ds @ [u]"
    and "ds \<noteq> []"
    and "list_all (is_digit 10) ds"
    and "u \<in> set ''hdw''"
    and "0 \<le> now1" and "0 \<le> now2" and "now2 \<le> 2 ^ 53"
    and "now1 + int (digits_value 10 ds) * durationMap u \<le> 2 ^ 53"
  shows "apiKeys (fst (generate_key h st body now1 now2 uuid)) uuid =
           Some \<lparr>expiresAt = now1 + int (digits_value 10 ds) * durationMap u,
                 createdAt = now2\<rparr> \<and>
         map_option (\<lambda>r. expiresAt r - createdAt r)
             (apiKeys (fst (generate_key h st body now1 now2 uuid)) uuid) =
           Some (int (digits_value 10 ds) * durationMap u - (now2 - now1)) \<and>
         durationMap u =
           (if u = CHR ''h'' then 3600000 else if u = CHR ''d'' then 86400000 else 604800000)"
  using assms(1,2,5) match_duration_snoc [OF assms(3,4,5)]
  by (auto simp: generate_key_def Let_def durationMap_def)

theorem issued_key_expiry_witness:
  "apiKeys (fst (generate_key sample_host sample_state
                   \<lparr>expiresIn = Some ''2d'', masterKey = Some ''secret''\<rparr> 1000 1000 ''u'')) ''u''
     = Some \<lparr>expiresAt = 172801000, createdAt = 1000\<rparr>"
  using issued_key_expiry
          [of "\<lparr>expiresIn = Some ''2d'', masterKey = Some ''secret''\<rparr>" sample_host "''2''"
              "CHR ''d''" 1000 1000 sample_state "''u''"]
  by (simp add: sample_host_def is_digit_def digit_val_def digits_value_def durationMap_def)

section \<open>Regeneration of the catalog\<close>








section \<open>The listing leaves the catalog alone\<close>

text \<open>
  The array that is sorted is never the catalog's: it lies at an address allocated during
  the request. Sorting the catalog's own array would reorder it, as on the sample catalog
  by price.
\<close>

lemma sort_stage_fresh: "nxt st \<le> fst (sort_stage h st q)"
  by (simp add: sort_stage_def filter_stage_def alloc_def array_filter_def array_sort_def
      Let_def split: option.splits)

lemma sort_in_place_reorders:
  "heap (array_sort (comparator sample_host ''price'' ''asc'') (products sample_state)
           sample_state) (products sample_state)
     = rev sample_catalog"
  by (simp add: array_sort_def sample_defs sort_by_def comparator_def)

text \<open>
  C10: \<^verbatim>\<open>GET /api/products\<close> never mutates the catalog. In a state whose catalog array is
  allocated, for every query, the global \<^verbatim>\<open>products\<close> points to the same array after the
  request and that array has the same contents in the same order; no array that existed
  before the request is changed. The in-place sort runs on a copy, at another address.
\<close>

theorem get_products_keeps_catalog:
  assumes "products st < nxt st"
  shows "products (fst (get_products h st q)) = products st \<and>
         heap (fst (get_products h st q)) (products (fst (get_products h st q)))
           = heap st (products st) \<and>
         (\<forall>a<nxt st. heap (fst (get_products h st q)) a = heap st a) \<and>
         fst (sort_stage h st q) \<noteq> products st"
  using assms get_products_frame(2) [of "products st" st h q] sort_stage_fresh [of st h q]
  by (auto simp: get_products_frame(1))

theorem get_products_keeps_catalog_witness:
  "heap (fst (get_products sample_host sample_state (no_params\<lparr>q_sort := Some ''price''\<rparr>)))
        (products (fst (get_products sample_host sample_state
                          (no_params\<lparr>q_sort := Some ''price''\<rparr>))))
     = sample_catalog \<and>
   products' (snd (get_products sample_host sample_state (no_params\<lparr>q_sort := Some ''price''\<rparr>)))
     = rev sample_catalog"
proof -
  have "products sample_state < nxt sample_state"
    by (simp add: sample_state_def)
  from get_products_keeps_catalog [OF this, of sample_host "no_params\<lparr>q_sort := Some ''price''\<rparr>"]
  show ?thesis
    by (simp add: get_products_reply sample_defs pipeline_defs)
qed

end
